theory Spec2Isabelle
  imports Main "HOL-Library.Sublist"
begin

section \<open>Python values, string formatting and dictionary access\<close>

text \<open>
  The two scripts \<^verbatim>\<open>use-agent-tool.py\<close> and \<^verbatim>\<open>use-agent-with-memory-1.py\<close> define three
  tool handlers and build a model client from the process environment. Everything else
  they do is a call into the agent framework.

  A Python \<^verbatim>\<open>str\<close> is modelled as a \<^typ>\<open>string\<close> in which every \<^typ>\<open>char\<close> stands for
  one code point (so the model covers the code points below 256, and \<^const>\<open>length\<close>
  counts what Python's \<^verbatim>\<open>len\<close> counts). The handlers only concatenate their arguments
  and compare them for equality, which Python does code point by code point.

  The values the handlers touch are strings and dictionaries with string keys. A
  dictionary is an association list in insertion order, because \<^verbatim>\<open>repr\<close> prints the
  entries in that order.
\<close>

datatype pyval = Str string | Dict "(string \<times> pyval) list"

text \<open>
  The one exception the operations below can raise: a method call on a value whose type
  does not have the method (\<^verbatim>\<open>'str' object has no attribute 'get'\<close>).
\<close>

datatype error = AttributeError

subsection \<open>\<^verbatim>\<open>repr\<close>\<close>

text \<open>
  \<^verbatim>\<open>repr\<close> of a string: the text goes between single quotes, or between double quotes
  when it holds a single quote and no double quote. The quote character and the backslash
  are escaped with a backslash; tab, newline and carriage return become \<^verbatim>\<open>\t\<close>, \<^verbatim>\<open>\n\<close>,
  \<^verbatim>\<open>\r\<close>; every other character that is not printable becomes \<^verbatim>\<open>\xhh\<close> with two
  lower-case hexadecimal digits. Below 256 the printable code points are 0x20 to 0x7e and
  0xa1 to 0xff without the soft hyphen 0xad.

  The handlers of the scripts print only the dictionaries written in the source, whose
  keys and values are plain letters; the escapes are there because \<^verbatim>\<open>repr\<close> is defined
  on every string.
\<close>

definition hexdigits :: string where
  "hexdigits = ''0123456789abcdef''"

definition hex2 :: "char \<Rightarrow> string" where
  "hex2 c = [hexdigits ! ((of_char c :: nat) div 16), hexdigits ! ((of_char c :: nat) mod 16)]"

definition isprintable :: "char \<Rightarrow> bool" where
  "isprintable c =
     (let n = (of_char c :: nat)
      in (0x20 \<le> n \<and> n \<le> 0x7e) \<or> (0xa1 \<le> n \<and> n \<le> 0xac) \<or> 0xae \<le> n)"

definition repr_char :: "char \<Rightarrow> char \<Rightarrow> string" where
  "repr_char quote c =
     (if c = quote \<or> c = CHR 0x5C then [CHR 0x5C, c]
      else if c = CHR 0x09 then [CHR 0x5C, CHR ''t'']
      else if c = CHR 0x0A then [CHR 0x5C, CHR ''n'']
      else if c = CHR 0x0D then [CHR 0x5C, CHR ''r'']
      else if (of_char c :: nat) < 0x20 \<or> c = CHR 0x7F then [CHR 0x5C, CHR ''x''] @ hex2 c
      else if (of_char c :: nat) < 0x7F then [c]
      else if isprintable c then [c]
      else [CHR 0x5C, CHR ''x''] @ hex2 c)"

definition repr_str :: "string \<Rightarrow> string" where
  "repr_str s =
     (let quote = (if CHR 0x27 \<in> set s
                   then (if CHR 0x22 \<in> set s then CHR 0x27 else CHR 0x22)
                   else CHR 0x27)
      in [quote] @ concat (map (repr_char quote) s) @ [quote])"

text \<open>\<^verbatim>\<open>sep.join(xs)\<close>.\<close>

fun join :: "string \<Rightarrow> string list \<Rightarrow> string" where
  "join sep [] = []"
| "join sep [x] = x"
| "join sep (x # y # ys) = x @ sep @ join sep (y # ys)"

text \<open>
  \<^verbatim>\<open>repr\<close> of a dictionary: the entries as \<^verbatim>\<open>key: value\<close>, each side printed with
  \<^verbatim>\<open>repr\<close>, separated by a comma and a space, between braces.
\<close>

fun repr :: "pyval \<Rightarrow> string" where
  "repr (Str s) = repr_str s"
| "repr (Dict kvs) =
     ''{'' @ join '', '' (map (\<lambda>(k, v). repr_str k @ '': '' @ repr v) kvs) @ ''}''"

subsection \<open>Formatted string literals\<close>

text \<open>
  A replacement field \<^verbatim>\<open>{e}\<close> with no conversion and no format specification
  evaluates to \<^verbatim>\<open>format(e, '')\<close>: a string is inserted as it is, a dictionary has no
  \<^verbatim>\<open>__format__\<close> or \<^verbatim>\<open>__str__\<close> of its own and is printed with \<^verbatim>\<open>repr\<close>.
\<close>

definition format :: "pyval \<Rightarrow> string" where
  "format v = (case v of Str s \<Rightarrow> s | Dict kvs \<Rightarrow> repr (Dict kvs))"

text \<open>
  An f-string is a sequence of literal pieces and replacement fields; its value is the
  concatenation of the pieces and of the formatted fields, from left to right.
\<close>

datatype fpart = Lit string | Field pyval

definition fstring :: "fpart list \<Rightarrow> string" where
  "fstring parts = concat (map (\<lambda>p. case p of Lit s \<Rightarrow> s | Field v \<Rightarrow> format v) parts)"

subsection \<open>\<^verbatim>\<open>get\<close> with a default\<close>

text \<open>
  \<^verbatim>\<open>d.get(key, default)\<close>: the value stored under the key, the default when the key is
  absent. Only a dictionary has the method; on a string the call raises.
\<close>

fun py_get :: "pyval \<Rightarrow> string \<Rightarrow> pyval \<Rightarrow> error + pyval" where
  "py_get (Dict kvs) key dflt =
     Inr (case map_of kvs key of Some v \<Rightarrow> v | None \<Rightarrow> dflt)"
| "py_get (Str s) key dflt = Inl AttributeError"

section \<open>The tool handlers\<close>

text \<open>
  Each definition is the body of the function under the \<^verbatim>\<open>@tool\<close> decorator. The
  decorator, and the schema validation it adds in front of the body, belong to the
  framework. Formatting a string argument cannot raise, so \<open>get_weather\<close> and
  \<open>save_user_preference\<close> return a string; \<open>get_user_profile\<close> calls \<^verbatim>\<open>get\<close> on
  values it has looked up, so it returns \<^typ>\<open>error + string\<close>.
\<close>

text \<open>
  \<^verbatim>\<open>use-agent-tool.py\<close>:
  \<^verbatim>\<open>
  def get_weather(location: str) -> str:
      return f"The weather in {location} is sunny."
  \<close>
\<close>

definition get_weather :: "string \<Rightarrow> string" where
  "get_weather location =
     fstring [Lit ''The weather in '', Field (Str location), Lit '' is sunny.'']"

text \<open>
  \<^verbatim>\<open>use-agent-with-memory-1.py\<close>:
  \<^verbatim>\<open>
  def get_user_profile(user_id: str) -> str:
      profiles = {
          "user_123": {"name": "Alice", "preferences": {"theme": "dark", "language": "en"}},
          "user_456": {"name": "Bob", "preferences": {"theme": "light", "language": "zh"}},
      }
      profile = profiles.get(user_id, {})
      return f"User: {profile.get('name', 'Unknown')}, Prefs: {profile.get('preferences', {})}"
  \<close>
\<close>

definition profiles :: pyval where
  "profiles = Dict
     [(''user_123'', Dict [(''name'', Str ''Alice''),
                           (''preferences'', Dict [(''theme'', Str ''dark''), (''language'', Str ''en'')])]),
      (''user_456'', Dict [(''name'', Str ''Bob''),
                           (''preferences'', Dict [(''theme'', Str ''light''), (''language'', Str ''zh'')])])]"

definition get_user_profile :: "string \<Rightarrow> error + string" where
  "get_user_profile user_id =
     (case py_get profiles user_id (Dict []) of
        Inl e \<Rightarrow> Inl e
      | Inr profile \<Rightarrow>
         (case py_get profile ''name'' (Str ''Unknown'') of
            Inl e \<Rightarrow> Inl e
          | Inr name \<Rightarrow>
             (case py_get profile ''preferences'' (Dict []) of
                Inl e \<Rightarrow> Inl e
              | Inr prefs \<Rightarrow>
                 Inr (fstring [Lit ''User: '', Field name, Lit '', Prefs: '', Field prefs]))))"

text \<open>
  \<^verbatim>\<open>
  def save_user_preference(user_id: str, key: str, value: str) -> str:
      return f"Saved preference: {user_id} - {key}: {value}"
  \<close>
\<close>

definition save_user_preference :: "string \<Rightarrow> string \<Rightarrow> string \<Rightarrow> string" where
  "save_user_preference user_id key val =
     fstring [Lit ''Saved preference: '', Field (Str user_id), Lit '' - '',
              Field (Str key), Lit '': '', Field (Str val)]"

section \<open>The model client\<close>

text \<open>
  Both scripts start with \<^verbatim>\<open>load_dotenv()\<close> and then build the client with the same call:
  \<^verbatim>\<open>
  load_dotenv()
  ...
  model = ChatOpenAI(
      model=os.getenv("MODEL_NAME"),
      base_url=os.getenv("BASE_URL"),
      api_key=os.getenv("API_KEY")
  )
  \<close>
  The environment is the mapping \<^verbatim>\<open>os.environ\<close>.
  \<^verbatim>\<open>os.getenv(key, default=None)\<close> is \<^verbatim>\<open>os.environ.get(key, default)\<close>.
\<close>

type_synonym environ = "string \<rightharpoonup> string"

definition os_getenv :: "environ \<Rightarrow> string \<Rightarrow> string option \<Rightarrow> string option" where
  "os_getenv env key dflt = (case env key of Some v \<Rightarrow> Some v | None \<Rightarrow> dflt)"

text \<open>The three keyword arguments of the call, evaluated in an environment.\<close>

record kwargs =
  model :: "string option"
  base_url :: "string option"
  api_key :: "string option"

definition model_kwargs :: "environ \<Rightarrow> kwargs" where
  "model_kwargs env =
     \<lparr>model = os_getenv env ''MODEL_NAME'' None,
      base_url = os_getenv env ''BASE_URL'' None,
      api_key = os_getenv env ''API_KEY'' None\<rparr>"

text \<open>
  \<^verbatim>\<open>load_dotenv\<close> and the constructor \<^verbatim>\<open>ChatOpenAI\<close> are library functions; their code is
  not part of the scripts, so the model takes both as parameters. \<^verbatim>\<open>load_dotenv\<close> may
  rewrite \<^verbatim>\<open>os.environ\<close> (from a \<^verbatim>\<open>.env\<close> file): it maps the environment of the
  process to the one the rest of the script sees. The constructor is called in that
  environment and, like any function of the process, can read it: it receives the
  environment next to its keyword arguments. What it returns is the client.
\<close>

definition model_client ::
  "(environ \<Rightarrow> environ) \<Rightarrow> (environ \<Rightarrow> kwargs \<Rightarrow> 'client) \<Rightarrow> environ \<Rightarrow> 'client" where
  "model_client load_dotenv ChatOpenAI env =
     (let env1 = load_dotenv env in ChatOpenAI env1 (model_kwargs env1))"

text \<open>
  One rule of the client library's constructor, from its documentation: the API key of
  the client is the \<^verbatim>\<open>api_key\<close> argument, and when that argument is \<^verbatim>\<open>None\<close> it is
  read from the variable \<^verbatim>\<open>OPENAI_API_KEY\<close>; with neither, no client is built and the
  constructor raises. \<open>api_key_source\<close> is a constructor that does this and returns only
  where the key comes from. It is not the library's constructor, which does more (and may
  still refuse a key it is given); it is an instance of the parameter that the
  properties below are evaluated at.
\<close>

datatype key_source = Argument string | Variable string | Missing

definition api_key_source :: "environ \<Rightarrow> kwargs \<Rightarrow> key_source" where
  "api_key_source env kw =
     (case api_key kw of
        Some k \<Rightarrow> Argument k
      | None \<Rightarrow> (case env ''OPENAI_API_KEY'' of Some k \<Rightarrow> Variable k | None \<Rightarrow> Missing))"

text \<open>
  The remaining statements of the scripts build the agent (\<^verbatim>\<open>create_agent\<close>, with an
  \<^verbatim>\<open>InMemorySaver\<close> in the second script) and call \<^verbatim>\<open>agent.invoke\<close>. What these calls
  return is computed by the agent framework and the remote model, whose code is not part
  of the scripts; they are not embedded here.
\<close>

section \<open>Evaluating f-strings\<close>

lemma fstring_Nil: "fstring [] = []"
  by (simp add: fstring_def)

lemma fstring_Lit: "fstring (Lit s # ps) = s @ fstring ps"
  by (simp add: fstring_def)

lemma fstring_Field_Str: "fstring (Field (Str s) # ps) = s @ fstring ps"
  by (simp add: fstring_def format_def)

lemma fstring_Field_Dict: "fstring (Field (Dict kvs) # ps) = repr (Dict kvs) @ fstring ps"
  by (simp add: fstring_def format_def)

lemmas fstring_simps = fstring_Nil fstring_Lit fstring_Field_Str fstring_Field_Dict

section \<open>Properties of \<open>get_weather\<close>\<close>

lemma get_weather_template:
  "get_weather location = ''The weather in '' @ location @ '' is sunny.''"
  by (simp add: get_weather_def fstring_simps)

lemma get_weather_sunny_split:
  "get_weather location = (''The weather in '' @ location @ '' is '') @ ''sunny'' @ ''.''"
  by (simp add: get_weather_template)

text \<open>
  Claim C2. For every string \<open>location\<close>, the string \<open>get_weather location\<close> contains
  \<open>location\<close> as a contiguous substring, and it contains the word \<^verbatim>\<open>sunny\<close>.
\<close>

theorem get_weather_contains:
  "sublist location (get_weather location) \<and> sublist ''sunny'' (get_weather location)"
proof
  show "sublist location (get_weather location)"
    unfolding get_weather_template by (rule sublist_appendI)
  show "sublist ''sunny'' (get_weather location)"
    unfolding get_weather_sunny_split by (rule sublist_appendI)
qed

text \<open>
  Claim C10. For every string \<open>location\<close>, \<open>get_weather location\<close> is exactly the text
  \<^verbatim>\<open>The weather in \<close>, then \<open>location\<close>, then \<^verbatim>\<open> is sunny.\<close>
\<close>

theorem get_weather_exact:
  "get_weather location = ''The weather in '' @ location @ '' is sunny.''"
  by (rule get_weather_template)

section \<open>Properties of \<open>get_user_profile\<close>\<close>

lemma repr_dark_en:
  "repr (Dict [(''theme'', Str ''dark''), (''language'', Str ''en'')])
     = ''{'theme': 'dark', 'language': 'en'}''"
  by (simp add: repr_str_def repr_char_def Let_def)

lemma repr_empty: "repr (Dict []) = ''{}''"
  by simp

text \<open>
  The escapes at work: \<^verbatim>\<open>repr("it's")\<close> switches to double quotes, and
  \<^verbatim>\<open>repr('a\n\\\x07\xe9\xa0')\<close> keeps the printable \<^verbatim>\<open>\xe9\<close> and escapes the rest.
\<close>

lemma repr_str_single_quote: "repr_str ''it's'' = [CHR 0x22] @ ''it's'' @ [CHR 0x22]"
  by (simp add: repr_str_def repr_char_def Let_def)

lemma repr_str_escapes:
  "repr_str [CHR ''a'', CHR 0x0A, CHR 0x5C, CHR 0x07, CHR 0xE9, CHR 0xA0]
     = [CHR 0x27, CHR ''a'', CHR 0x5C, CHR ''n'', CHR 0x5C, CHR 0x5C,
        CHR 0x5C, CHR ''x'', CHR ''0'', CHR ''7'', CHR 0xE9,
        CHR 0x5C, CHR ''x'', CHR ''a'', CHR ''0'', CHR 0x27]"
  by (simp add: repr_str_def repr_char_def isprintable_def hex2_def hexdigits_def Let_def)

text \<open>The lookup in the table: one of the two profiles, or the empty default.\<close>

lemma profiles_get:
  "py_get profiles user_id (Dict []) =
     Inr (if user_id = ''user_123''
          then Dict [(''name'', Str ''Alice''),
                     (''preferences'', Dict [(''theme'', Str ''dark''), (''language'', Str ''en'')])]
          else if user_id = ''user_456''
          then Dict [(''name'', Str ''Bob''),
                     (''preferences'', Dict [(''theme'', Str ''light''), (''language'', Str ''zh'')])]
          else Dict [])"
  by (simp add: profiles_def)

text \<open>Whatever the key, the lookup succeeds and what it returns is a dictionary.\<close>

lemma profiles_get_Dict: "\<exists>kvs. py_get profiles user_id (Dict []) = Inr (Dict kvs)"
  by (simp add: profiles_get)

text \<open>
  Claim C3. \<open>get_user_profile\<close> at \<^verbatim>\<open>user_123\<close> returns the string
  \<^verbatim>\<open>User: Alice, Prefs: {'theme': 'dark', 'language': 'en'}\<close>. It contains \<^verbatim>\<open>Alice\<close>, and
  it contains the representation of the mapping of \<^verbatim>\<open>theme\<close> to \<^verbatim>\<open>dark\<close> and of
  \<^verbatim>\<open>language\<close> to \<^verbatim>\<open>en\<close>, which is Python's \<^verbatim>\<open>repr\<close> of that dictionary (single
  quotes, entries in insertion order).
\<close>

theorem get_user_profile_user_123:
  "get_user_profile ''user_123'' = Inr ''User: Alice, Prefs: {'theme': 'dark', 'language': 'en'}''
   \<and> sublist ''Alice'' ''User: Alice, Prefs: {'theme': 'dark', 'language': 'en'}''
   \<and> sublist (repr (Dict [(''theme'', Str ''dark''), (''language'', Str ''en'')]))
        ''User: Alice, Prefs: {'theme': 'dark', 'language': 'en'}''
   \<and> repr (Dict [(''theme'', Str ''dark''), (''language'', Str ''en'')])
        = ''{'theme': 'dark', 'language': 'en'}''"
proof -
  have r: "get_user_profile ''user_123''
             = Inr (''User: Alice, Prefs: '' @ repr (Dict [(''theme'', Str ''dark''), (''language'', Str ''en'')]))"
    by (simp add: get_user_profile_def profiles_get fstring_simps del: repr.simps)
  have a: "''User: Alice, Prefs: {'theme': 'dark', 'language': 'en'}''
             = ''User: '' @ ''Alice'' @ '', Prefs: {'theme': 'dark', 'language': 'en'}''"
    by simp
  have b: "''User: Alice, Prefs: {'theme': 'dark', 'language': 'en'}''
             = ''User: Alice, Prefs: '' @ repr (Dict [(''theme'', Str ''dark''), (''language'', Str ''en'')])"
    by (subst repr_dark_en) simp
  have "sublist ''Alice'' ''User: Alice, Prefs: {'theme': 'dark', 'language': 'en'}''"
    by (subst a) (rule sublist_appendI)
  moreover have "sublist (repr (Dict [(''theme'', Str ''dark''), (''language'', Str ''en'')]))
        ''User: Alice, Prefs: {'theme': 'dark', 'language': 'en'}''"
    by (subst b) (rule sublist_append_leftI)
  ultimately show ?thesis
    using r repr_dark_en by (simp del: repr.simps)
qed

text \<open>
  Claim C4. For every string \<open>user_id\<close> other than the two keys \<^verbatim>\<open>user_123\<close> and
  \<^verbatim>\<open>user_456\<close> of the table, \<open>get_user_profile user_id\<close> returns the string
  \<^verbatim>\<open>User: Unknown, Prefs: {}\<close>: it contains \<^verbatim>\<open>Unknown\<close> and the representation of the
  empty dictionary.
\<close>

theorem get_user_profile_unknown:
  "user_id \<noteq> ''user_123'' \<and> user_id \<noteq> ''user_456'' \<longrightarrow>
     (\<exists>r. get_user_profile user_id = Inr r \<and> r = ''User: Unknown, Prefs: {}''
        \<and> sublist ''Unknown'' r \<and> sublist (repr (Dict [])) r)"
proof
  assume k: "user_id \<noteq> ''user_123'' \<and> user_id \<noteq> ''user_456''"
  have r: "get_user_profile user_id = Inr ''User: Unknown, Prefs: {}''"
    using k by (simp add: get_user_profile_def profiles_get fstring_simps)
  have "''User: Unknown, Prefs: {}'' = ''User: '' @ ''Unknown'' @ '', Prefs: {}''"
    by simp
  then have u: "sublist ''Unknown'' ''User: Unknown, Prefs: {}''"
    by (simp only: sublist_appendI)
  have "''User: Unknown, Prefs: {}'' = ''User: Unknown, Prefs: '' @ repr (Dict [])"
    by simp
  then have e: "sublist (repr (Dict [])) ''User: Unknown, Prefs: {}''"
    by (simp only: sublist_append_leftI)
  show "\<exists>r. get_user_profile user_id = Inr r \<and> r = ''User: Unknown, Prefs: {}''
        \<and> sublist ''Unknown'' r \<and> sublist (repr (Dict [])) r"
    using r u e by blast
qed

theorem get_user_profile_unknown_witness:
  "''user_789'' \<noteq> ''user_123'' \<and> ''user_789'' \<noteq> ''user_456''
   \<and> get_user_profile ''user_789'' = Inr ''User: Unknown, Prefs: {}''
   \<and> get_user_profile [] = Inr ''User: Unknown, Prefs: {}''"
  using get_user_profile_unknown [of "''user_789''"] get_user_profile_unknown [of "[]"]
  by simp

text \<open>
  Claim C9. \<open>get_user_profile\<close> returns a string for every string \<open>user_id\<close> and never
  raises: the lookup in the table is a \<^verbatim>\<open>get\<close> with a dictionary as default, so the
  profile is a dictionary whether the key is present or not, and the two field lookups
  are \<^verbatim>\<open>get\<close> with a default on that dictionary, so they succeed whether the fields are
  present or not.
\<close>

theorem get_user_profile_total: "\<exists>s. get_user_profile user_id = Inr s"
proof -
  obtain kvs where p: "py_get profiles user_id (Dict []) = Inr (Dict kvs)"
    using profiles_get_Dict by blast
  obtain name where n: "py_get (Dict kvs) ''name'' (Str ''Unknown'') = Inr name"
    by simp
  obtain prefs where q: "py_get (Dict kvs) ''preferences'' (Dict []) = Inr prefs"
    by simp
  have "get_user_profile user_id
          = Inr (fstring [Lit ''User: '', Field name, Lit '', Prefs: '', Field prefs])"
    unfolding get_user_profile_def by (simp only: p n q sum.case)
  then show ?thesis
    by blast
qed

section \<open>Properties of \<open>save_user_preference\<close>\<close>

text \<open>
  Claim C5. For all strings \<open>user_id\<close>, \<open>key\<close> and \<open>val\<close>, the empty string
  included, the string \<open>save_user_preference user_id key val\<close> contains each of the
  three as a contiguous substring, unchanged.
\<close>

theorem save_user_preference_contains:
  "save_user_preference user_id key val
     = ''Saved preference: '' @ user_id @ '' - '' @ key @ '': '' @ val
   \<and> sublist user_id (save_user_preference user_id key val)
   \<and> sublist key (save_user_preference user_id key val)
   \<and> sublist val (save_user_preference user_id key val)"
proof -
  have r: "save_user_preference user_id key val
             = ''Saved preference: '' @ user_id @ '' - '' @ key @ '': '' @ val"
    by (simp add: save_user_preference_def fstring_simps)
  have "sublist user_id (''Saved preference: '' @ user_id @ ('' - '' @ key @ '': '' @ val))"
    by (rule sublist_appendI)
  moreover have "sublist key ((''Saved preference: '' @ user_id @ '' - '') @ key @ ('': '' @ val))"
    by (rule sublist_appendI)
  moreover have "sublist val ((''Saved preference: '' @ user_id @ '' - '' @ key @ '': '') @ val)"
    by (rule sublist_append_leftI)
  ultimately show ?thesis
    using r by simp
qed

section \<open>Properties of the model client\<close>

lemma os_getenv_None: "os_getenv env key None = env key"
  by (simp add: os_getenv_def split: option.splits)

text \<open>
  Claim C8, as stated, ends with: the constructed client configuration is independent of
  every environment variable other than \<^verbatim>\<open>MODEL_NAME\<close>, \<^verbatim>\<open>BASE_URL\<close> and \<^verbatim>\<open>API_KEY\<close>.
  That does not hold. Take no \<^verbatim>\<open>.env\<close> file (so that \<^verbatim>\<open>load_dotenv\<close> leaves the
  environment as it is) and two environments that both hold \<^verbatim>\<open>MODEL_NAME=gpt-4o\<close> and
  none of the other two variables; one of them also holds \<^verbatim>\<open>OPENAI_API_KEY=sk-1\<close>. The
  scripts pass \<^verbatim>\<open>api_key=None\<close> in both, and a constructor that falls back on
  \<^verbatim>\<open>OPENAI_API_KEY\<close>, as the client library's does, gives a client with the key
  \<^verbatim>\<open>sk-1\<close> in the first and none in the second.
\<close>

theorem model_client_depends_on_OPENAI_API_KEY:
  "map_of [(''MODEL_NAME'', ''gpt-4o''), (''OPENAI_API_KEY'', ''sk-1'')] ''MODEL_NAME''
     = map_of [(''MODEL_NAME'', ''gpt-4o'')] ''MODEL_NAME''
   \<and> map_of [(''MODEL_NAME'', ''gpt-4o''), (''OPENAI_API_KEY'', ''sk-1'')] ''BASE_URL''
     = map_of [(''MODEL_NAME'', ''gpt-4o'')] ''BASE_URL''
   \<and> map_of [(''MODEL_NAME'', ''gpt-4o''), (''OPENAI_API_KEY'', ''sk-1'')] ''API_KEY''
     = map_of [(''MODEL_NAME'', ''gpt-4o'')] ''API_KEY''
   \<and> model_client id api_key_source
        (map_of [(''MODEL_NAME'', ''gpt-4o''), (''OPENAI_API_KEY'', ''sk-1'')])
     = Variable ''sk-1''
   \<and> model_client id api_key_source (map_of [(''MODEL_NAME'', ''gpt-4o'')]) = Missing
   \<and> model_client id api_key_source
        (map_of [(''MODEL_NAME'', ''gpt-4o''), (''OPENAI_API_KEY'', ''sk-1'')])
     \<noteq> model_client id api_key_source (map_of [(''MODEL_NAME'', ''gpt-4o'')])"
  by (simp add: model_client_def model_kwargs_def os_getenv_None api_key_source_def)

text \<open>
  Claim C8, amended. What the scripts read from the environment, as \<^verbatim>\<open>load_dotenv\<close>
  leaves it, is exactly \<^verbatim>\<open>MODEL_NAME\<close>, \<^verbatim>\<open>BASE_URL\<close> and \<^verbatim>\<open>API_KEY\<close>. The three values
  become the keyword arguments \<^verbatim>\<open>model\<close>, \<^verbatim>\<open>base_url\<close> and \<^verbatim>\<open>api_key\<close> as they are: a
  variable that is absent gives \<^verbatim>\<open>None\<close> (no default is supplied), one that is present
  is passed on whatever its value (nothing is validated). Two such environments that
  agree on the three variables give the same keyword arguments, whatever else they hold.
  The client is the constructor applied to these arguments in that environment: whatever
  else it depends on, it depends on through the library, not through the scripts.
\<close>

theorem model_kwargs_three_variables:
  "model_kwargs env =
     \<lparr>model = env ''MODEL_NAME'', base_url = env ''BASE_URL'', api_key = env ''API_KEY''\<rparr>
   \<and> (env' ''MODEL_NAME'' = env ''MODEL_NAME'' \<and> env' ''BASE_URL'' = env ''BASE_URL''
        \<and> env' ''API_KEY'' = env ''API_KEY''
      \<longrightarrow> model_kwargs env' = model_kwargs env)
   \<and> model_client load_dotenv ChatOpenAI env0
       = ChatOpenAI (load_dotenv env0)
           \<lparr>model = load_dotenv env0 ''MODEL_NAME'', base_url = load_dotenv env0 ''BASE_URL'',
            api_key = load_dotenv env0 ''API_KEY''\<rparr>"
  by (simp add: model_client_def model_kwargs_def os_getenv_None Let_def)

text \<open>
  The amended claim at two environments that hold all three variables and differ in
  others: the keyword arguments are the same, and the key of the client is the argument
  in both, whether \<^verbatim>\<open>OPENAI_API_KEY\<close> is set or not.
\<close>

theorem model_kwargs_three_variables_witness:
  "model_kwargs (map_of [(''MODEL_NAME'', ''gpt-4o''), (''BASE_URL'', ''https://api.example.com/v1''),
                         (''API_KEY'', ''sk-0''), (''OPENAI_API_KEY'', ''sk-1'')])
     = model_kwargs (map_of [(''MODEL_NAME'', ''gpt-4o''), (''BASE_URL'', ''https://api.example.com/v1''),
                             (''API_KEY'', ''sk-0''), (''HOME'', ''/root'')])
   \<and> model_kwargs (map_of [(''MODEL_NAME'', ''gpt-4o''), (''BASE_URL'', ''https://api.example.com/v1''),
                           (''API_KEY'', ''sk-0''), (''HOME'', ''/root'')])
     = \<lparr>model = Some ''gpt-4o'', base_url = Some ''https://api.example.com/v1'',
        api_key = Some ''sk-0''\<rparr>
   \<and> model_client id api_key_source
        (map_of [(''MODEL_NAME'', ''gpt-4o''), (''BASE_URL'', ''https://api.example.com/v1''),
                 (''API_KEY'', ''sk-0''), (''HOME'', ''/root'')])
     = Argument ''sk-0''"
  using model_kwargs_three_variables
    [of "map_of [(''MODEL_NAME'', ''gpt-4o''), (''BASE_URL'', ''https://api.example.com/v1''),
                 (''API_KEY'', ''sk-0''), (''HOME'', ''/root'')]"
        "map_of [(''MODEL_NAME'', ''gpt-4o''), (''BASE_URL'', ''https://api.example.com/v1''),
                 (''API_KEY'', ''sk-0''), (''OPENAI_API_KEY'', ''sk-1'')]"
        id api_key_source
        "map_of [(''MODEL_NAME'', ''gpt-4o''), (''BASE_URL'', ''https://api.example.com/v1''),
                 (''API_KEY'', ''sk-0''), (''HOME'', ''/root'')]"]
  by (simp add: api_key_source_def)

end
